theory Spec2Isabelle
  imports Main "HOL-Library.Word" "HOL-Library.Sublist"
begin

section \<open>Values of the generation flow\<close>

text \<open>
  The flow file defines three asynchronous functions: \<open>toWav\<close>, \<open>textToSpeechFlow\<close> and
  \<open>generateVideoFlow\<close> (with its two inner tasks \<open>videoGenPromise\<close> and
  \<open>audioGenPromise\<close>). A promise is modelled by its settled outcome: \<open>Inr v\<close> when it
  fulfils with \<open>v\<close>, \<open>Inl e\<close> when it rejects with \<open>e\<close>, wrapped in an option whose
  \<open>None\<close> stands for a promise that never settles. Console output is not modelled.
\<close>

type_synonym byte = "8 word"

text \<open>
  A thrown JavaScript value: an \<open>Error\<close> instance with its \<open>message\<close>, or any other
  value, kept as the text \<open>String(e)\<close> gives for it.
\<close>

datatype thrown = Error string | Primitive string

text \<open>\<open>e instanceof Error ? e.message : String(e)\<close>\<close>

fun error_text :: "thrown \<Rightarrow> string" where
  "error_text (Error m) = m"
| "error_text (Primitive s) = s"

text \<open>
  \<open>reason.message\<close> inside a template literal: the message of an \<open>Error\<close>; a string, a
  number or a boolean has no such property and the template prints \<open>undefined\<close>. The
  second equation is never reached by the flow: its video task rejects with an \<open>Error\<close>
  only.
\<close>

fun message_prop :: "thrown \<Rightarrow> string" where
  "message_prop (Error m) = m"
| "message_prop (Primitive s) = ''undefined''"

datatype aspect_ratio = AR_16_9 | AR_9_16 | AR_1_1 | AR_4_5 | AR_2_3

datatype language_enum = En | Hi | Te

fun language_code :: "language_enum \<Rightarrow> string" where
  "language_code En = ''en''"
| "language_code Hi = ''hi''"
| "language_code Te = ''te''"

text \<open>The input after the schema has parsed it, so the two defaulted fields are present.\<close>

record GenerateVideoInput =
  prompt :: string
  narration :: "string option"
  style :: "string option"
  aspectRatio :: aspect_ratio
  language :: language_enum

record GenerateVideoOutput =
  videoUrl :: string
  audioUrl :: "string option"

record media_ref =
  url :: string
  contentType :: "string option"

record part =
  media :: "media_ref option"

text \<open>
  The message type declares \<open>content\<close> as a required list; \<open>None\<close> is a message object
  that lacks the property at run time.
\<close>

record message_data =
  content :: "part list option"

record response_data =
  message :: "message_data option"

text \<open>The long-running operation; \<open>op_error\<close> holds \<open>error.message\<close>.\<close>

record operation =
  op_done :: bool
  op_error :: "string option"
  op_output :: "response_data option"

text \<open>The HTTP response of the download; \<open>body\<close> is \<open>None\<close> for a null body, and reading a
  body either fails with an error message or gives the bytes.\<close>

record fetch_response =
  ok :: bool
  statusText :: string
  body :: "(string + byte list) option"

record wav_options =
  channels :: nat
  sampleRate :: nat
  bitDepth :: nat

text \<open>The events a stream writer emits to its listeners.\<close>

datatype writer_event = Data "byte list" | End | Err thrown

text \<open>
  The external collaborators of the flow. A call returns \<open>Inr\<close> the value it resolves to or
  \<open>Inl\<close> what it throws. \<open>veo_generate\<close> takes the composed prompt and the aspect ratio
  and gives the response's operation; \<open>tts_generate\<close> takes the voice and the prompt and
  gives the response's media. \<open>checkOperation\<close> is indexed by the number of status checks
  made before it, which stands for the state of the remote service. \<open>fetch\<close> rejects with
  an \<open>Error\<close>, given by its message. \<open>base64_decode\<close> is \<open>Buffer.from(s, 'base64')\<close>;
  the decoder of the runtime is lenient, and the model lets it fail all the same.
  \<open>wav_Writer\<close> gives the events the writer emits after \<open>write(pcmData); end()\<close>.
  \<open>validation_error\<close> is what the flow framework throws when the value a flow function
  returns fails the flow's \<open>outputSchema\<close>.
\<close>

record env =
  veo_generate :: "string \<Rightarrow> aspect_ratio \<Rightarrow> thrown + operation option"
  checkOperation :: "nat \<Rightarrow> operation \<Rightarrow> thrown + operation"
  fetch :: "string \<Rightarrow> string + fetch_response"
  GEMINI_API_KEY :: "string option"
  tts_generate :: "string \<Rightarrow> string \<Rightarrow> thrown + media_ref option"
  base64_decode :: "string \<Rightarrow> thrown + byte list"
  wav_Writer :: "wav_options \<Rightarrow> byte list \<Rightarrow> writer_event list"
  validation_error :: thrown

text \<open>The calls a task makes to the outside, in order.\<close>

datatype effect =
    GenerateVideo string aspect_ratio
  | Sleep nat
  | CheckOperation
  | Fetch string
  | GenerateSpeech string string

section \<open>Base64\<close>

definition base64_alphabet :: string where
  "base64_alphabet = ''ABCDEFGHIJKLMNOPQRSTUVWXYZabcdefghijklmnopqrstuvwxyz0123456789+/''"

definition base64_char :: "nat \<Rightarrow> char" where
  "base64_char n = base64_alphabet ! (n mod 64)"

text \<open>\<open>Buffer.toString('base64')\<close>: three bytes give four characters, with \<open>=\<close> padding.\<close>

fun base64 :: "byte list \<Rightarrow> string" where
  "base64 (a # b # c # rest) =
     [base64_char (unat a div 4),
      base64_char ((unat a mod 4) * 16 + unat b div 16),
      base64_char ((unat b mod 16) * 4 + unat c div 64),
      base64_char (unat c mod 64)] @ base64 rest"
| "base64 [a, b] =
     [base64_char (unat a div 4),
      base64_char ((unat a mod 4) * 16 + unat b div 16),
      base64_char ((unat b mod 16) * 4),
      CHR ''='']"
| "base64 [a] =
     [base64_char (unat a div 4),
      base64_char ((unat a mod 4) * 16),
      CHR ''='', CHR ''='']"
| "base64 [] = []"

section \<open>toWav\<close>

text \<open>
  The three listeners of \<open>toWav\<close> run over the writer's events with the local array
  \<open>bufs\<close>: \<open>data\<close> pushes the chunk, \<open>end\<close> resolves with the base64 text of the
  concatenated chunks, \<open>error\<close> rejects. A promise settles once, so the first \<open>end\<close> or
  \<open>error\<close> decides; with neither, the promise stays pending.
\<close>

fun toWav_listeners :: "writer_event list \<Rightarrow> byte list list \<Rightarrow> (thrown + string) option" where
  "toWav_listeners [] bufs = None"
| "toWav_listeners (Data d # es) bufs = toWav_listeners es (bufs @ [d])"
| "toWav_listeners (End # es) bufs = Some (Inr (base64 (concat bufs)))"
| "toWav_listeners (Err e # es) bufs = Some (Inl e)"

definition toWav ::
  "(wav_options \<Rightarrow> byte list \<Rightarrow> writer_event list) \<Rightarrow> byte list \<Rightarrow> nat \<Rightarrow> nat \<Rightarrow> nat
    \<Rightarrow> (thrown + string) option" where
  "toWav writer pcmData chans rate sampleWidth =
     toWav_listeners
       (writer \<lparr>channels = chans, sampleRate = rate, bitDepth = sampleWidth * 8\<rparr> pcmData) []"

section \<open>textToSpeechFlow\<close>

definition voiceName :: "string \<Rightarrow> string" where
  "voiceName lang =
     (if lang = ''hi'' then ''hi-IN-Neural2-A''
      else if lang = ''te'' then ''te-IN-Wavenet-A''
      else ''Algenib'')"

text \<open>\<open>s.substring(s.indexOf(',') + 1)\<close>: the text after the first comma, all of \<open>s\<close> when
  it has none.\<close>

definition after_comma :: "string \<Rightarrow> string" where
  "after_comma s = (case dropWhile (\<lambda>c. c \<noteq> CHR '','') s of [] \<Rightarrow> s | _ # rest \<Rightarrow> rest)"

text \<open>The body of the \<open>try\<close> block; \<open>toWav\<close> is called with its default parameters.\<close>

definition textToSpeechFlow_try ::
  "env \<Rightarrow> string \<Rightarrow> string \<Rightarrow> ((thrown + string option) \<times> effect list) option" where
  "textToSpeechFlow_try E prmpt lang =
     (let voice = voiceName lang; tr = [GenerateSpeech voice prmpt] in
      case tts_generate E voice prmpt of
        Inl e \<Rightarrow> Some (Inl e, tr)
      | Inr None \<Rightarrow> Some (Inr None, tr)
      | Inr (Some m) \<Rightarrow>
          if url m = [] then Some (Inr None, tr)
          else
            (case base64_decode E (after_comma (url m)) of
               Inl e \<Rightarrow> Some (Inl e, tr)
             | Inr audioBuffer \<Rightarrow>
                 (case toWav (wav_Writer E) audioBuffer 1 24000 2 of
                    None \<Rightarrow> None
                  | Some (Inl e) \<Rightarrow> Some (Inl e, tr)
                  | Some (Inr wavBase64) \<Rightarrow>
                      Some (Inr (Some (''data:audio/wav;base64,'' @ wavBase64)), tr))))"

text \<open>
  The function given to \<open>ai.defineFlow\<close>: its \<open>catch\<close> clause turns every exception of
  the block into \<open>undefined\<close>.
\<close>

definition textToSpeechFlow_fn ::
  "env \<Rightarrow> string \<Rightarrow> string \<Rightarrow> ((thrown + string option) \<times> effect list) option" where
  "textToSpeechFlow_fn E prmpt lang =
     (case textToSpeechFlow_try E prmpt lang of
        None \<Rightarrow> None
      | Some (Inl e, tr) \<Rightarrow> Some (Inr None, tr)
      | Some (Inr v, tr) \<Rightarrow> Some (Inr v, tr))"

text \<open>
  \<open>textToSpeechFlow\<close> is the flow that \<open>ai.defineFlow\<close> makes of that function, and the
  flow is what \<open>audioGenPromise\<close> calls. The flow checks the value the function returns
  against \<open>outputSchema: z.string().optional()\<close>, which is checked as the schema of a
  string: a string passes, and a returned \<open>undefined\<close> fails, so that the flow rejects
  with the framework's validation error. The input, an object of two strings, always
  passes \<open>inputSchema\<close>.
\<close>

definition textToSpeechFlow ::
  "env \<Rightarrow> string \<Rightarrow> string \<Rightarrow> ((thrown + string option) \<times> effect list) option" where
  "textToSpeechFlow E prmpt lang =
     (case textToSpeechFlow_fn E prmpt lang of
        None \<Rightarrow> None
      | Some (Inl e, tr) \<Rightarrow> Some (Inl e, tr)
      | Some (Inr None, tr) \<Rightarrow> Some (Inl (validation_error E), tr)
      | Some (Inr (Some wavUri), tr) \<Rightarrow> Some (Inr (Some wavUri), tr))"

section \<open>videoGenPromise\<close>

text \<open>
  The body of the video task, in the order of the source: the composed prompt, the
  submission, the polling loop, and what follows the loop (the operation's error, the
  search for the video part, the download). The dynamic import of the fetch module is
  taken to succeed.
\<close>

text \<open>\<open>input.style || 'a cinematic film'\<close>: an absent and an empty style are both falsy.\<close>

definition fullPrompt :: "GenerateVideoInput \<Rightarrow> string" where
  "fullPrompt input =
     prompt input @ '', in the style of '' @
     (case style input of
        None \<Rightarrow> ''a cinematic film''
      | Some s \<Rightarrow> if s = [] then ''a cinematic film'' else s)"

text \<open>
  The polling loop, with the number \<open>k\<close> of checks made so far and the effects so far.
  It may run forever: \<open>None\<close> is the loop that never leaves.
\<close>

partial_function (option) poll ::
  "(nat \<Rightarrow> operation \<Rightarrow> thrown + operation) \<Rightarrow> nat \<Rightarrow> operation \<Rightarrow> effect list
    \<Rightarrow> ((thrown + operation) \<times> effect list) option" where
  "poll chk k oper tr =
     (if op_done oper then Some (Inr oper, tr)
      else
        (case chk k oper of
           Inl e \<Rightarrow>
             Some (Inl (Error (''Failed to check video generation status: '' @ error_text e)),
                   tr @ [Sleep 5000, CheckOperation])
         | Inr oper' \<Rightarrow> poll chk (Suc k) oper' (tr @ [Sleep 5000, CheckOperation])))"

declare poll.simps [code]

text \<open>\<open>operation.output?.message?.content.find((p) => !!p.media)\<close>: optional chaining stops
  at an absent output or message; \<open>find\<close> on an absent content list is a \<open>TypeError\<close>.\<close>

definition find_video :: "operation \<Rightarrow> thrown + part option" where
  "find_video oper =
     (case op_output oper of
        None \<Rightarrow> Inr None
      | Some out \<Rightarrow>
          (case message out of
             None \<Rightarrow> Inr None
           | Some msg \<Rightarrow>
               (case content msg of
                  None \<Rightarrow> Inl (Error ''Cannot read properties of undefined (reading 'find')'')
                | Some parts \<Rightarrow> Inr (find (\<lambda>p. media p \<noteq> None) parts))))"

definition not_found_error :: thrown where
  "not_found_error = Error ''Failed to find the generated video in the operation output.''"

text \<open>The download of a located video and its data URI.\<close>

definition download_video :: "env \<Rightarrow> media_ref \<Rightarrow> (thrown + string) \<times> effect list" where
  "download_video E m =
     (let videoDownloadUrl =
            url m @ ''&key='' @ (case GEMINI_API_KEY E of None \<Rightarrow> ''undefined'' | Some k \<Rightarrow> k);
          tr = [Fetch videoDownloadUrl] in
      case fetch E videoDownloadUrl of
        Inl msg \<Rightarrow> (Inl (Error msg), tr)
      | Inr videoResponse \<Rightarrow>
          (case (ok videoResponse, body videoResponse) of
             (True, Some (Inr videoBuffer)) \<Rightarrow>
               (Inr (''data:'' @
                     (case contentType m of
                        None \<Rightarrow> ''video/mp4''
                      | Some ct \<Rightarrow> if ct = [] then ''video/mp4'' else ct) @
                     '';base64,'' @ base64 videoBuffer), tr)
           | (True, Some (Inl msg)) \<Rightarrow> (Inl (Error msg), tr)
           | _ \<Rightarrow>
               (Inl (Error (''Failed to download video from '' @ url m @ ''. Status: '' @
                            statusText videoResponse)), tr)))"

text \<open>The part of the task after the loop, on the terminal operation.\<close>

definition after_poll :: "env \<Rightarrow> operation \<Rightarrow> (thrown + string) \<times> effect list" where
  "after_poll E oper =
     (case op_error oper of
        Some msg \<Rightarrow> (Inl (Error (''Video generation failed: '' @ msg)), [])
      | None \<Rightarrow>
          (case find_video oper of
             Inl e \<Rightarrow> (Inl e, [])
           | Inr None \<Rightarrow> (Inl not_found_error, [])
           | Inr (Some video) \<Rightarrow>
               (case media video of
                  None \<Rightarrow> (Inl not_found_error, [])
                | Some m \<Rightarrow>
                    if url m = [] then (Inl not_found_error, [])
                    else download_video E m)))"

definition videoGenPromise ::
  "env \<Rightarrow> GenerateVideoInput \<Rightarrow> ((thrown + string) \<times> effect list) option" where
  "videoGenPromise E input =
     (let tr0 = [GenerateVideo (fullPrompt input) (aspectRatio input)] in
      case veo_generate E (fullPrompt input) (aspectRatio input) of
        Inl e \<Rightarrow>
          Some (Inl (Error (''Failed to initiate video generation: '' @ error_text e)), tr0)
      | Inr None \<Rightarrow>
          Some (Inl (Error ''Expected the model to return an operation for video generation.''),
                tr0)
      | Inr (Some oper0) \<Rightarrow>
          (case poll (checkOperation E) 0 oper0 tr0 of
             None \<Rightarrow> None
           | Some (Inl e, tr) \<Rightarrow> Some (Inl e, tr)
           | Some (Inr oper, tr) \<Rightarrow>
               (case after_poll E oper of (r, tr') \<Rightarrow> Some (r, tr @ tr'))))"

section \<open>audioGenPromise and generateVideoFlow\<close>

text \<open>\<open>!input.narration\<close> holds for an absent and for an empty narration.\<close>

definition audioGenPromise ::
  "env \<Rightarrow> GenerateVideoInput \<Rightarrow> ((thrown + string option) \<times> effect list) option" where
  "audioGenPromise E input =
     (case narration input of
        None \<Rightarrow> Some (Inr None, [])
      | Some n \<Rightarrow>
          if n = [] then Some (Inr None, [])
          else textToSpeechFlow E n
                 (let l = language_code (language input) in if l = [] then ''en'' else l))"

text \<open>What the flow does with the two settled results of \<open>Promise.allSettled\<close>.\<close>

definition merge_results ::
  "thrown + string \<Rightarrow> thrown + string option \<Rightarrow> thrown + GenerateVideoOutput" where
  "merge_results videoResult audioResult =
     (case videoResult of
        Inl reason \<Rightarrow> Inl (Error (''Video generation failed: '' @ message_prop reason))
      | Inr videoValue \<Rightarrow>
          Inr \<lparr>videoUrl = videoValue,
               audioUrl = (case audioResult of Inr audioValue \<Rightarrow> audioValue | Inl reason \<Rightarrow> None)\<rparr>)"

text \<open>
  \<open>Promise.allSettled\<close> waits for both tasks, whatever their outcomes: the flow goes on
  when both have settled, and never when one of them stays pending. The result carries the
  effects of the video task and those of the audio task.
\<close>

definition join_tasks ::
  "((thrown + string) \<times> effect list) option \<Rightarrow> ((thrown + string option) \<times> effect list) option
    \<Rightarrow> ((thrown + GenerateVideoOutput) \<times> effect list \<times> effect list) option" where
  "join_tasks videoTask audioTask =
     (case videoTask of
        None \<Rightarrow> None
      | Some (videoResult, vtr) \<Rightarrow>
          (case audioTask of
             None \<Rightarrow> None
           | Some (audioResult, atr) \<Rightarrow> Some (merge_results videoResult audioResult, vtr, atr)))"

definition generateVideoFlow ::
  "env \<Rightarrow> GenerateVideoInput
    \<Rightarrow> ((thrown + GenerateVideoOutput) \<times> effect list \<times> effect list) option" where
  "generateVideoFlow E input = join_tasks (videoGenPromise E input) (audioGenPromise E input)"

section \<open>Reading a writer's events\<close>

text \<open>The bytes a writer emits before its first closing signal, and that signal.\<close>

fun emitted :: "writer_event list \<Rightarrow> byte list" where
  "emitted [] = []"
| "emitted (Data d # es) = d @ emitted es"
| "emitted (End # es) = []"
| "emitted (Err e # es) = []"

fun closing_signal :: "writer_event list \<Rightarrow> writer_event option" where
  "closing_signal [] = None"
| "closing_signal (Data d # es) = closing_signal es"
| "closing_signal (End # es) = Some End"
| "closing_signal (Err e # es) = Some (Err e)"

section \<open>A scripted environment\<close>

text \<open>
  Concrete collaborators on which the flow can be run: the submission returns a pending
  operation, the status endpoint answers pending twice and then finished, the download
  gives three bytes, the speech endpoint a data URI, and the writer a header chunk,
  the samples and the end signal.
\<close>

definition pending_operation :: operation where
  "pending_operation = \<lparr>op_done = False, op_error = None, op_output = None\<rparr>"

definition finished_operation :: operation where
  "finished_operation =
     \<lparr>op_done = True, op_error = None,
      op_output = Some \<lparr>message = Some \<lparr>content = Some
        [\<lparr>media = None\<rparr>,
         \<lparr>media = Some \<lparr>url = ''https://video.example/v1?alt=media'',
                        contentType = Some ''video/webm''\<rparr>\<rparr>]\<rparr>\<rparr>\<rparr>"

text \<open>Three terminal operations: one with no output, one whose message has no content
  list, and one that failed at the provider.\<close>

definition outputless_operation :: operation where
  "outputless_operation = \<lparr>op_done = True, op_error = None, op_output = None\<rparr>"

definition contentless_operation :: operation where
  "contentless_operation =
     \<lparr>op_done = True, op_error = None,
      op_output = Some \<lparr>message = Some \<lparr>content = None\<rparr>\<rparr>\<rparr>"

definition quota_operation :: operation where
  "quota_operation = \<lparr>op_done = True, op_error = Some ''quota exceeded'', op_output = None\<rparr>"

definition scripted_env :: env where
  "scripted_env =
     \<lparr>veo_generate = (\<lambda>p a. Inr (Some pending_operation)),
      checkOperation = (\<lambda>k h. if k < 2 then Inr pending_operation else Inr finished_operation),
      fetch = (\<lambda>u. Inr \<lparr>ok = True, statusText = ''OK'', body = Some (Inr [77, 97, 110])\<rparr>),
      GEMINI_API_KEY = Some ''KEY'',
      tts_generate = (\<lambda>v p. Inr (Some \<lparr>url = ''data:audio/L16;base64,AQID'', contentType = None\<rparr>)),
      base64_decode = (\<lambda>s. Inr [1, 2, 3]),
      wav_Writer = (\<lambda>opts pcm. [Data [82, 73, 70, 70], Data pcm, End]),
      validation_error = Error ''Schema validation failed. Parse Errors: - (root): must be string''\<rparr>"

text \<open>The scripted environment with a submission that returns the operation \<open>oper\<close>.\<close>

definition submits :: "operation \<Rightarrow> env" where
  "submits oper = scripted_env\<lparr>veo_generate := \<lambda>p a. Inr (Some oper)\<rparr>"

definition sunset_request :: GenerateVideoInput where
  "sunset_request =
     \<lparr>prompt = ''a sunset'', narration = None, style = None,
      aspectRatio = AR_16_9, language = En\<rparr>"

definition city_request :: GenerateVideoInput where
  "city_request =
     \<lparr>prompt = ''a city'', narration = Some ''Hello'', style = Some ''Anime'',
      aspectRatio = AR_16_9, language = Hi\<rparr>"

section \<open>The encoder\<close>

text \<open>The outcome of the listeners in closed form: it depends on the emitted bytes and the
  closing signal only, not on how the writer cuts the bytes into chunks.\<close>

lemma toWav_listeners_closed_form:
  "toWav_listeners es bufs =
     (case closing_signal es of
        None \<Rightarrow> None
      | Some (Err e) \<Rightarrow> Some (Inl e)
      | Some _ \<Rightarrow> Some (Inr (base64 (concat bufs @ emitted es))))"
  by (induction es bufs rule: toWav_listeners.induct)
    (simp_all split: option.splits writer_event.splits)

text \<open>
  Claim C9. Encoding is deterministic: two invocations of \<open>toWav\<close> with the same PCM bytes,
  channels, sample rate and sample width give the same outcome, hence the same base64
  text. \<open>W1\<close> and \<open>W2\<close> are the writer at the two invocations: for the same arguments it
  emits the same bytes and the same closing signal, but it may cut the bytes into chunks
  differently each time.
\<close>

theorem toWav_deterministic:
  assumes "emitted (W1 \<lparr>channels = c, sampleRate = r, bitDepth = w * 8\<rparr> pcm) =
           emitted (W2 \<lparr>channels = c, sampleRate = r, bitDepth = w * 8\<rparr> pcm)"
    and "closing_signal (W1 \<lparr>channels = c, sampleRate = r, bitDepth = w * 8\<rparr> pcm) =
         closing_signal (W2 \<lparr>channels = c, sampleRate = r, bitDepth = w * 8\<rparr> pcm)"
  shows "toWav W1 pcm c r w = toWav W2 pcm c r w"
  by (simp only: toWav_def toWav_listeners_closed_form assms)

theorem toWav_deterministic_witness:
  "toWav (\<lambda>opts pcm. [Data [82, 73], Data pcm, End]) [70, 70] 1 24000 2 =
   toWav (\<lambda>opts pcm. [Data (82 # 73 # pcm), End, Data [0]]) [70, 70] 1 24000 2 \<and>
   toWav (\<lambda>opts pcm. [Data [82, 73], Data pcm, End]) [70, 70] 1 24000 2 = Some (Inr ''UklGRg=='')"
proof -
  have "toWav (\<lambda>opts pcm. [Data [82, 73], Data pcm, End]) [70, 70] 1 24000 2 =
        toWav (\<lambda>opts pcm. [Data (82 # 73 # pcm), End, Data [0]]) [70, 70] 1 24000 2"
    by (rule toWav_deterministic) simp_all
  moreover have "toWav (\<lambda>opts pcm. [Data [82, 73], Data pcm, End]) [70, 70] 1 24000 2 = Some (Inr ''UklGRg=='')"
    by (simp add: toWav_def base64_char_def base64_alphabet_def)
  ultimately show ?thesis by simp
qed

section \<open>Voice selection\<close>

text \<open>
  Claim C8. The voice is a function of the language code alone: \<open>hi\<close> selects the Hindi
  neural voice, \<open>te\<close> the Telugu voice, and \<open>en\<close> and every other code the default
  voice.
\<close>

theorem voiceName_table:
  "voiceName ''hi'' = ''hi-IN-Neural2-A'' \<and>
   voiceName ''te'' = ''te-IN-Wavenet-A'' \<and>
   voiceName ''en'' = ''Algenib'' \<and>
   (\<forall>l. l \<noteq> ''hi'' \<and> l \<noteq> ''te'' \<longrightarrow> voiceName l = ''Algenib'')"
  by (simp add: voiceName_def)

theorem voiceName_table_witness:
  "voiceName ''fr'' = ''Algenib'' \<and> voiceName [] = ''Algenib''"
  using voiceName_table by simp

section \<open>The polling loop\<close>

text \<open>What the loop returns when it returns: it only appends effects, it rejects with an
  \<open>Error\<close>, and the operation it hands on is done.\<close>

lemma poll_result:
  assumes "poll chk k oper tr = Some y"
  shows "prefix tr (snd y) \<and>
         (case fst y of Inl e \<Rightarrow> \<exists>m. e = Error m | Inr oper' \<Rightarrow> op_done oper')"
proof (rule poll.raw_induct
    [where P = "\<lambda>chk k oper tr y. prefix tr (snd y) \<and>
         (case fst y of Inl e \<Rightarrow> \<exists>m. e = Error m | Inr oper' \<Rightarrow> op_done oper')", OF _ assms])
  fix p :: "(nat \<Rightarrow> operation \<Rightarrow> thrown + operation) \<Rightarrow> nat \<Rightarrow> operation \<Rightarrow> effect list
    \<Rightarrow> ((thrown + operation) \<times> effect list) option"
  fix chk k oper tr y
  assume IH: "\<And>chk k oper tr y. p chk k oper tr = Some y \<Longrightarrow> prefix tr (snd y) \<and>
         (case fst y of Inl e \<Rightarrow> \<exists>m. e = Error m | Inr oper' \<Rightarrow> op_done oper')"
  assume body: "(if op_done oper then Some (Inr oper, tr)
      else case chk k oper of
           Inl e \<Rightarrow>
             Some (Inl (Error (''Failed to check video generation status: '' @ error_text e)),
               tr @ [Sleep 5000, CheckOperation])
           | Inr oper' \<Rightarrow> p chk (Suc k) oper' (tr @ [Sleep 5000, CheckOperation])) = Some y"
  show "prefix tr (snd y) \<and>
         (case fst y of Inl e \<Rightarrow> \<exists>m. e = Error m | Inr oper' \<Rightarrow> op_done oper')"
  proof (cases "op_done oper")
    case True
    with body show ?thesis by auto
  next
    case False
    show ?thesis
    proof (cases "chk k oper")
      case (Inl e)
      with False body show ?thesis by auto
    next
      case (Inr oper')
      with False body have "p chk (Suc k) oper' (tr @ [Sleep 5000, CheckOperation]) = Some y"
        by simp
      from IH[OF this] show ?thesis by (auto dest: append_prefixD)
    qed
  qed
qed

lemma poll_appends: "poll chk k oper tr = Some (r, tr') \<Longrightarrow> prefix tr tr'"
  using poll_result[of chk k oper tr "(r, tr')"] by simp

lemma poll_rejects_with_Error: "poll chk k oper tr = Some (Inl e, tr') \<Longrightarrow> \<exists>m. e = Error m"
  using poll_result[of chk k oper tr "(Inl e, tr')"] by simp

lemma poll_returns_done: "poll chk k oper tr = Some (Inr oper', tr') \<Longrightarrow> op_done oper'"
  using poll_result[of chk k oper tr "(Inr oper', tr')"] by simp

lemma poll_scripted:
  assumes "\<forall>j. k \<le> j \<and> j < N \<longrightarrow> (\<forall>h. \<exists>o'. chk j h = Inr o' \<and> \<not> op_done o')"
    and "\<forall>h. \<exists>o'. chk N h = Inr o' \<and> op_done o'"
    and "k \<le> N" and "\<not> op_done oper"
  shows "\<exists>operN. op_done operN \<and>
           poll chk k oper tr =
             Some (Inr operN, tr @ concat (replicate (Suc N - k) [Sleep 5000, CheckOperation]))"
  using assms
proof (induction "N - k" arbitrary: k oper tr)
  case 0
  then have kN: "k = N" by simp
  from 0(3) obtain o' where o': "chk N oper = Inr o'" "op_done o'" by blast
  have "poll chk N oper tr = poll chk (Suc N) o' (tr @ [Sleep 5000, CheckOperation])"
    using 0(5) o' by (subst poll.simps) simp
  also have "\<dots> = Some (Inr o', tr @ [Sleep 5000, CheckOperation])"
    using o' by (subst poll.simps) simp
  finally show ?case using o' kN by auto
next
  case (Suc n)
  then have kN: "k < N" by simp
  with Suc(3) obtain o' where o': "chk k oper = Inr o'" "\<not> op_done o'" by blast
  have step: "poll chk k oper tr = poll chk (Suc k) o' (tr @ [Sleep 5000, CheckOperation])"
    using Suc(6) o' by (subst poll.simps) simp
  have "n = N - Suc k" using Suc(2) by simp
  moreover have "\<forall>j. Suc k \<le> j \<and> j < N \<longrightarrow> (\<forall>h. \<exists>o'. chk j h = Inr o' \<and> \<not> op_done o')"
    using Suc(3) by auto
  ultimately obtain operN where operN: "op_done operN"
    "poll chk (Suc k) o' (tr @ [Sleep 5000, CheckOperation]) =
       Some (Inr operN, (tr @ [Sleep 5000, CheckOperation]) @
               concat (replicate (Suc N - Suc k) [Sleep 5000, CheckOperation]))"
    using Suc(1)[of "Suc k" o' "tr @ [Sleep 5000, CheckOperation]"] Suc(4) kN o' by auto
  have "Suc N - k = Suc (Suc N - Suc k)" using kN by simp
  then have "concat (replicate (Suc N - k) [Sleep 5000, CheckOperation]) =
      [Sleep 5000, CheckOperation] @ concat (replicate (Suc N - Suc k) [Sleep 5000, CheckOperation])"
    by simp
  with step operN show ?case by auto
qed

lemma count_checks:
  "count_list (concat (replicate n [Sleep 5000, CheckOperation])) CheckOperation = n"
  by (induction n) simp_all

text \<open>
  Claim C5. For every \<open>N\<close>: when the submission returned an operation that is not done and
  the status endpoint answers not done to its first \<open>N\<close> checks and done to the next, the
  loop terminates, with exactly \<open>N + 1\<close> status checks, each directly after a sleep of
  5000 milliseconds.
\<close>

theorem poll_terminates_after_script:
  assumes "\<not> op_done oper0"
    and "\<forall>j<N. \<forall>h. \<exists>o'. chk j h = Inr o' \<and> \<not> op_done o'"
    and "\<forall>h. \<exists>o'. chk N h = Inr o' \<and> op_done o'"
  shows "\<exists>operN. op_done operN \<and>
           poll chk 0 oper0 [] =
             Some (Inr operN, concat (replicate (N + 1) [Sleep 5000, CheckOperation])) \<and>
           count_list (concat (replicate (N + 1) [Sleep 5000, CheckOperation])) CheckOperation = N + 1"
proof -
  have "\<forall>j. 0 \<le> j \<and> j < N \<longrightarrow> (\<forall>h. \<exists>o'. chk j h = Inr o' \<and> \<not> op_done o')"
    using assms(2) by simp
  from poll_scripted[OF this assms(3) _ assms(1), of "[]"]
  show ?thesis by (simp add: count_checks)
qed

theorem poll_terminates_after_script_witness:
  "\<not> op_done pending_operation \<and>
   (\<exists>operN. op_done operN \<and>
      poll (checkOperation scripted_env) 0 pending_operation [] =
        Some (Inr operN,
          [Sleep 5000, CheckOperation, Sleep 5000, CheckOperation, Sleep 5000, CheckOperation]))"
proof -
  have a: "\<not> op_done pending_operation" by (simp add: pending_operation_def)
  have b: "\<forall>j<2. \<forall>h. \<exists>o'. checkOperation scripted_env j h = Inr o' \<and> \<not> op_done o'"
    by (simp add: scripted_env_def pending_operation_def)
  have c: "\<forall>h. \<exists>o'. checkOperation scripted_env 2 h = Inr o' \<and> op_done o'"
    by (simp add: scripted_env_def finished_operation_def)
  from poll_terminates_after_script[OF a b c] a
  show ?thesis by (simp add: eval_nat_numeral)
qed

section \<open>The video task\<close>

lemma sublist_after: "sublist m (p @ m)"
  unfolding sublist_def by (rule exI[of _ p], rule exI[of _ "[]"]) simp

text \<open>The video task on the scripted environment.\<close>

lemma scripted_video:
  "videoGenPromise scripted_env input =
     Some (Inr ''data:video/webm;base64,TWFu'',
       [GenerateVideo (fullPrompt input) (aspectRatio input),
        Sleep 5000, CheckOperation, Sleep 5000, CheckOperation, Sleep 5000, CheckOperation,
        Fetch ''https://video.example/v1?alt=media&key=KEY''])"
  by (simp add: videoGenPromise_def scripted_env_def poll.simps pending_operation_def
      finished_operation_def after_poll_def find_video_def download_video_def
      base64_char_def base64_alphabet_def)

lemma videoGenPromise_submitted:
  assumes "videoGenPromise E input = Some (r, tr)"
  shows "\<exists>rest. tr = GenerateVideo (fullPrompt input) (aspectRatio input) # rest"
proof -
  have p: "\<exists>rest. tr' = GenerateVideo (fullPrompt input) (aspectRatio input) # rest"
    if "poll (checkOperation E) 0 oper0 [GenerateVideo (fullPrompt input) (aspectRatio input)] = Some (x, tr')"
    for oper0 x tr'
    using poll_appends[OF that] by (auto simp: prefix_def)
  from assms show ?thesis
    by (auto simp: videoGenPromise_def Let_def split: sum.splits option.splits prod.splits dest!: p)
qed

text \<open>
  Claim C7, as amended. The composed prompt is the prompt, then \<open>, in the style of\<close>, then
  the style when it is present and not empty, and the default \<open>a cinematic film\<close> when the
  style is absent or empty; the composed prompt is what the video task submits first.
\<close>

theorem fullPrompt_composition:
  "(\<forall>s. style input = Some s \<and> s \<noteq> [] \<longrightarrow>
       fullPrompt input = prompt input @ '', in the style of '' @ s) \<and>
   (style input = None \<or> style input = Some [] \<longrightarrow>
       fullPrompt input = prompt input @ '', in the style of a cinematic film'') \<and>
   (\<forall>r tr. videoGenPromise E input = Some (r, tr) \<longrightarrow>
       (\<exists>rest. tr = GenerateVideo (fullPrompt input) (aspectRatio input) # rest))"
  using videoGenPromise_submitted[of E input] by (auto simp: fullPrompt_def)

theorem fullPrompt_composition_witness:
  "fullPrompt city_request = ''a city, in the style of Anime'' \<and>
   fullPrompt sunset_request = ''a sunset, in the style of a cinematic film'' \<and>
   fullPrompt (city_request\<lparr>style := Some []\<rparr>) = ''a city, in the style of a cinematic film'' \<and>
   (\<exists>r rest. videoGenPromise scripted_env city_request =
       Some (r, GenerateVideo ''a city, in the style of Anime'' AR_16_9 # rest))"
proof -
  have 1: "style city_request = Some ''Anime'' \<and> ''Anime'' \<noteq> []" "prompt city_request = ''a city''"
    "aspectRatio city_request = AR_16_9"
    by (simp_all add: city_request_def)
  have 2: "style sunset_request = None" "prompt sunset_request = ''a sunset''"
    by (simp_all add: sunset_request_def)
  have 3: "style (city_request\<lparr>style := Some []\<rparr>) = Some []"
    "prompt (city_request\<lparr>style := Some []\<rparr>) = ''a city''"
    by (simp_all add: city_request_def)
  from fullPrompt_composition[of city_request scripted_env] 1
  have a: "fullPrompt city_request = ''a city, in the style of Anime''" by simp
  from fullPrompt_composition[of sunset_request scripted_env] 2
  have b: "fullPrompt sunset_request = ''a sunset, in the style of a cinematic film''" by simp
  from fullPrompt_composition[of "city_request\<lparr>style := Some []\<rparr>" scripted_env] 3
  have c: "fullPrompt (city_request\<lparr>style := Some []\<rparr>) = ''a city, in the style of a cinematic film''"
    by simp
  from fullPrompt_composition[of city_request scripted_env] scripted_video[of city_request]
  have "\<exists>rest. [GenerateVideo (fullPrompt city_request) (aspectRatio city_request),
        Sleep 5000, CheckOperation, Sleep 5000, CheckOperation, Sleep 5000, CheckOperation,
        Fetch ''https://video.example/v1?alt=media&key=KEY''] =
      GenerateVideo (fullPrompt city_request) (aspectRatio city_request) # rest"
    by blast
  with scripted_video[of city_request] a 1(3)
  have d: "\<exists>r rest. videoGenPromise scripted_env city_request =
       Some (r, GenerateVideo ''a city, in the style of Anime'' AR_16_9 # rest)"
    by simp
  from a b c d show ?thesis by simp
qed

text \<open>With the style absent the composed prompt is not the one ending in
  \<open>cinematic film\<close>: the default has an article.\<close>

theorem fullPrompt_default_counterexample:
  "style sunset_request = None \<and> prompt sunset_request = ''a sunset'' \<and>
   fullPrompt sunset_request \<noteq> ''a sunset, in the style of cinematic film''"
  by (simp add: sunset_request_def fullPrompt_def)

text \<open>The task after a loop that handed on the operation \<open>oper\<close>.\<close>

lemma videoGenPromise_after_poll:
  assumes "veo_generate E (fullPrompt input) (aspectRatio input) = Inr (Some oper0)"
    and "poll (checkOperation E) 0 oper0 [GenerateVideo (fullPrompt input) (aspectRatio input)] =
           Some (Inr oper, tr)"
  shows "videoGenPromise E input = Some (fst (after_poll E oper), tr @ snd (after_poll E oper))"
  using assms by (simp add: videoGenPromise_def split: prod.splits)

text \<open>
  Claim C6, as amended. For every terminal operation that carries no error and whose
  output is absent, or whose message is absent, or whose content list is present and
  has no part with a media reference, the video task rejects with the error
  \<open>Failed to find the generated video in the operation output.\<close>
\<close>

theorem missing_video_is_protocol_violation:
  assumes "veo_generate E (fullPrompt input) (aspectRatio input) = Inr (Some oper0)"
    and "poll (checkOperation E) 0 oper0 [GenerateVideo (fullPrompt input) (aspectRatio input)] =
           Some (Inr oper, tr)"
    and "op_error oper = None"
    and "op_output oper = None \<or>
         (\<exists>out. op_output oper = Some out \<and>
            (message out = None \<or>
             (\<exists>msg ps. message out = Some msg \<and> content msg = Some ps \<and>
                (\<forall>p \<in> set ps. media p = None))))"
  shows "videoGenPromise E input =
           Some (Inl (Error ''Failed to find the generated video in the operation output.''), tr)"
proof -
  have "find_video oper = Inr None"
    using assms(4) by (auto simp: find_video_def find_None_iff)
  then have "after_poll E oper = (Inl not_found_error, [])"
    using assms(3) by (simp add: after_poll_def)
  with videoGenPromise_after_poll[OF assms(1,2)] show ?thesis
    by (simp add: not_found_error_def)
qed

theorem missing_video_is_protocol_violation_witness:
  "videoGenPromise (submits outputless_operation) sunset_request =
     Some (Inl (Error ''Failed to find the generated video in the operation output.''),
           [GenerateVideo ''a sunset, in the style of a cinematic film'' AR_16_9])"
proof -
  let ?F = "submits outputless_operation"
  have f: "fullPrompt sunset_request = ''a sunset, in the style of a cinematic film''"
    "aspectRatio sunset_request = AR_16_9"
    by (simp_all add: sunset_request_def fullPrompt_def)
  have 1: "veo_generate ?F (fullPrompt sunset_request) (aspectRatio sunset_request) =
      Inr (Some outputless_operation)" by (simp add: submits_def)
  have 2: "poll (checkOperation ?F) 0 outputless_operation
      [GenerateVideo (fullPrompt sunset_request) (aspectRatio sunset_request)] =
        Some (Inr outputless_operation,
          [GenerateVideo (fullPrompt sunset_request) (aspectRatio sunset_request)])"
    by (subst poll.simps) (simp add: outputless_operation_def)
  have 3: "op_error outputless_operation = None" by (simp add: outputless_operation_def)
  have 4: "op_output outputless_operation = None \<or>
         (\<exists>out. op_output outputless_operation = Some out \<and>
            (message out = None \<or>
             (\<exists>msg ps. message out = Some msg \<and> content msg = Some ps \<and>
                (\<forall>p \<in> set ps. media p = None))))"
    by (simp add: outputless_operation_def)
  from missing_video_is_protocol_violation[OF 1 2 3 4] f show ?thesis by simp
qed

text \<open>A terminal operation with no error whose message lacks the content list: the
  task rejects with the \<open>TypeError\<close> of \<open>find\<close>, not with the protocol error.\<close>

theorem absent_content_counterexample:
  "op_done contentless_operation \<and> op_error contentless_operation = None \<and>
   op_output contentless_operation = Some \<lparr>message = Some \<lparr>content = None\<rparr>\<rparr> \<and>
   videoGenPromise (submits contentless_operation) sunset_request =
     Some (Inl (Error ''Cannot read properties of undefined (reading 'find')''),
           [GenerateVideo ''a sunset, in the style of a cinematic film'' AR_16_9]) \<and>
   Error ''Cannot read properties of undefined (reading 'find')'' \<noteq>
     Error ''Failed to find the generated video in the operation output.''"
  by (simp add: submits_def contentless_operation_def videoGenPromise_def poll.simps
      after_poll_def find_video_def sunset_request_def fullPrompt_def)

text \<open>Every rejection of the video task is an \<open>Error\<close>.\<close>

lemma after_poll_rejects_with_Error: "after_poll E oper = (Inl r, tr) \<Longrightarrow> \<exists>m. r = Error m"
  by (auto simp: after_poll_def find_video_def download_video_def not_found_error_def Let_def
      split: option.splits sum.splits if_splits bool.splits)

lemma videoGenPromise_rejects_with_Error:
  assumes "videoGenPromise E input = Some (Inl r, tr)"
  shows "\<exists>m. r = Error m"
  using assms
  by (auto simp: videoGenPromise_def Let_def split: sum.splits option.splits prod.splits
      dest: poll_rejects_with_Error after_poll_rejects_with_Error)

lemma after_poll_operation_error:
  "op_error oper = Some q \<Longrightarrow> after_poll E oper = (Inl (Error (''Video generation failed: '' @ q)), [])"
  by (simp add: after_poll_def)

text \<open>
  Claim C1. For every request whose video task settles as a failure with reason \<open>r\<close>,
  whatever the way it failed: \<open>r\<close> is an \<open>Error\<close> with a message \<open>m\<close>, and for every
  settled outcome of the audio task, success or failure, the flow rejects with the one
  error \<open>Video generation failed: m\<close>, whose message contains \<open>m\<close>. When the
  submission threw \<open>e\<close>, the message contains the text of \<open>e\<close>; when the terminal
  operation carries \<open>error.message = q\<close>, the message contains \<open>q\<close>.
\<close>

theorem video_failure_rejects:
  assumes "videoGenPromise E input = Some (Inl r, vtr)"
  shows "\<exists>m. r = Error m \<and>
     sublist m (''Video generation failed: '' @ m) \<and>
     (\<forall>a atr. join_tasks (videoGenPromise E input) (Some (a, atr)) =
        Some (Inl (Error (''Video generation failed: '' @ m)), vtr, atr)) \<and>
     (\<forall>a atr. audioGenPromise E input = Some (a, atr) \<longrightarrow>
        generateVideoFlow E input =
          Some (Inl (Error (''Video generation failed: '' @ m)), vtr, atr)) \<and>
     (\<forall>e. veo_generate E (fullPrompt input) (aspectRatio input) = Inl e \<longrightarrow>
        m = ''Failed to initiate video generation: '' @ error_text e \<and>
        sublist (error_text e) (''Video generation failed: '' @ m)) \<and>
     (\<forall>oper0 oper tr q.
        veo_generate E (fullPrompt input) (aspectRatio input) = Inr (Some oper0) \<and>
        poll (checkOperation E) 0 oper0 [GenerateVideo (fullPrompt input) (aspectRatio input)] =
          Some (Inr oper, tr) \<and>
        op_error oper = Some q \<longrightarrow>
        m = ''Video generation failed: '' @ q \<and>
        sublist q (''Video generation failed: '' @ m))"
proof -
  from videoGenPromise_rejects_with_Error[OF assms] obtain m where m: "r = Error m" ..
  have 1: "sublist m (''Video generation failed: '' @ m)"
    by (rule sublist_after)
  have 2: "join_tasks (videoGenPromise E input) (Some (a, atr)) =
        Some (Inl (Error (''Video generation failed: '' @ m)), vtr, atr)" for a atr
    using assms m by (simp add: join_tasks_def merge_results_def)
  have 3: "generateVideoFlow E input =
          Some (Inl (Error (''Video generation failed: '' @ m)), vtr, atr)"
    if "audioGenPromise E input = Some (a, atr)" for a atr
    using 2[of a atr] that by (simp add: generateVideoFlow_def)
  have 4: "m = ''Failed to initiate video generation: '' @ error_text e \<and>
        sublist (error_text e) (''Video generation failed: '' @ m)"
    if "veo_generate E (fullPrompt input) (aspectRatio input) = Inl e" for e
  proof -
    from that assms m have "m = ''Failed to initiate video generation: '' @ error_text e"
      by (simp add: videoGenPromise_def)
    moreover have "sublist (error_text e)
      ((''Video generation failed: '' @ ''Failed to initiate video generation: '') @ error_text e)"
      by (rule sublist_after)
    ultimately show ?thesis by simp
  qed
  have 5: "m = ''Video generation failed: '' @ q \<and>
        sublist q (''Video generation failed: '' @ m)"
    if "veo_generate E (fullPrompt input) (aspectRatio input) = Inr (Some oper0) \<and>
        poll (checkOperation E) 0 oper0 [GenerateVideo (fullPrompt input) (aspectRatio input)] =
          Some (Inr oper, tr) \<and>
        op_error oper = Some q" for oper0 oper tr q
  proof -
    from that have "videoGenPromise E input = Some (Inl (Error (''Video generation failed: '' @ q)), tr)"
      using videoGenPromise_after_poll[of E input oper0 oper tr]
      by (simp add: after_poll_operation_error)
    with assms m have "m = ''Video generation failed: '' @ q" by simp
    moreover have "sublist q
      ((''Video generation failed: '' @ ''Video generation failed: '') @ q)"
      by (rule sublist_after)
    ultimately show ?thesis by simp
  qed
  from m 1 2 3 4 5 show ?thesis by blast
qed

theorem video_failure_rejects_witness:
  "generateVideoFlow (submits quota_operation) city_request =
     Some (Inl (Error ''Video generation failed: Video generation failed: quota exceeded''),
           [GenerateVideo ''a city, in the style of Anime'' AR_16_9],
           [GenerateSpeech ''hi-IN-Neural2-A'' ''Hello'']) \<and>
   sublist ''quota exceeded'' ''Video generation failed: Video generation failed: quota exceeded'' \<and>
   generateVideoFlow (scripted_env\<lparr>veo_generate := \<lambda>p a. Inl (Primitive ''503'')\<rparr>) sunset_request =
     Some (Inl (Error ''Video generation failed: Failed to initiate video generation: 503''),
           [GenerateVideo ''a sunset, in the style of a cinematic film'' AR_16_9], [])"
proof -
  let ?F = "submits quota_operation"
  let ?G = "scripted_env\<lparr>veo_generate := \<lambda>p a. Inl (Primitive ''503'')\<rparr>"
  let ?tr = "[GenerateVideo ''a city, in the style of Anime'' AR_16_9]"
  have f: "fullPrompt city_request = ''a city, in the style of Anime''"
    "aspectRatio city_request = AR_16_9"
    by (simp_all add: city_request_def fullPrompt_def)
  have v: "videoGenPromise ?F city_request =
     Some (Inl (Error ''Video generation failed: quota exceeded''), ?tr)"
    by (simp add: submits_def videoGenPromise_def poll.simps quota_operation_def after_poll_def
        city_request_def fullPrompt_def)
  have a: "audioGenPromise ?F city_request =
     Some (Inr (Some ''data:audio/wav;base64,UklGRgECAw==''),
           [GenerateSpeech ''hi-IN-Neural2-A'' ''Hello''])"
    by (simp add: submits_def audioGenPromise_def city_request_def textToSpeechFlow_def
        textToSpeechFlow_fn_def textToSpeechFlow_try_def voiceName_def scripted_env_def
        toWav_def base64_char_def base64_alphabet_def)
  have s: "veo_generate ?F (fullPrompt city_request) (aspectRatio city_request) =
      Inr (Some quota_operation)" by (simp add: submits_def)
  have p: "poll (checkOperation ?F) 0 quota_operation
      [GenerateVideo (fullPrompt city_request) (aspectRatio city_request)] =
        Some (Inr quota_operation, ?tr)"
    by (subst poll.simps) (simp add: quota_operation_def f)
  have q: "op_error quota_operation = Some ''quota exceeded''"
    by (simp add: quota_operation_def)
  from video_failure_rejects[OF v] obtain m where
    m: "Error ''Video generation failed: quota exceeded'' = Error m" and
    fl: "\<forall>a atr. audioGenPromise ?F city_request = Some (a, atr) \<longrightarrow>
        generateVideoFlow ?F city_request =
          Some (Inl (Error (''Video generation failed: '' @ m)), ?tr, atr)" and
    oe: "\<forall>oper0 oper tr q.
        veo_generate ?F (fullPrompt city_request) (aspectRatio city_request) = Inr (Some oper0) \<and>
        poll (checkOperation ?F) 0 oper0
          [GenerateVideo (fullPrompt city_request) (aspectRatio city_request)] =
          Some (Inr oper, tr) \<and>
        op_error oper = Some q \<longrightarrow>
        m = ''Video generation failed: '' @ q \<and>
        sublist q (''Video generation failed: '' @ m)"
    by (elim exE conjE) (rule that)
  from oe s p q have "sublist ''quota exceeded'' (''Video generation failed: '' @ m)"
    by (elim allE impE) (intro conjI, assumption+, elim conjE, assumption)
  moreover from m have "m = ''Video generation failed: quota exceeded''" by simp
  moreover from fl a have "generateVideoFlow ?F city_request =
          Some (Inl (Error (''Video generation failed: '' @ m)), ?tr,
            [GenerateSpeech ''hi-IN-Neural2-A'' ''Hello''])"
    by (elim allE impE) assumption+
  ultimately have 1: "generateVideoFlow ?F city_request =
     Some (Inl (Error ''Video generation failed: Video generation failed: quota exceeded''),
           ?tr, [GenerateSpeech ''hi-IN-Neural2-A'' ''Hello'']) \<and>
     sublist ''quota exceeded'' ''Video generation failed: Video generation failed: quota exceeded''"
    by simp
  have v': "videoGenPromise ?G sunset_request =
     Some (Inl (Error ''Failed to initiate video generation: 503''),
           [GenerateVideo ''a sunset, in the style of a cinematic film'' AR_16_9])"
    by (simp add: videoGenPromise_def sunset_request_def fullPrompt_def)
  have a': "audioGenPromise ?G sunset_request = Some (Inr None, [])"
    by (simp add: audioGenPromise_def sunset_request_def)
  from video_failure_rejects[OF v'] a'
  have 2: "generateVideoFlow ?G sunset_request =
     Some (Inl (Error ''Video generation failed: Failed to initiate video generation: 503''),
           [GenerateVideo ''a sunset, in the style of a cinematic film'' AR_16_9], [])"
    by auto
  from 1 2 show ?thesis by simp
qed

section \<open>The speech adapter\<close>

text \<open>Once the writer closes, \<open>toWav\<close> settles; the \<open>catch\<close> clause leaves the flow's
  function no rejection.\<close>

lemma toWav_settles:
  "closing_signal (W \<lparr>channels = c, sampleRate = r, bitDepth = w * 8\<rparr> pcm) \<noteq> None \<Longrightarrow>
     (\<exists>e. toWav W pcm c r w = Some (Inl e)) \<or> (\<exists>bs. toWav W pcm c r w = Some (Inr (base64 bs)))"
  by (auto simp: toWav_def toWav_listeners_closed_form split: option.splits writer_event.splits)

lemma textToSpeechFlow_fn_catches:
  "textToSpeechFlow_try E p l = Some (Inl e, tr) \<Longrightarrow>
     textToSpeechFlow_fn E p l = Some (Inr None, tr)"
  by (simp add: textToSpeechFlow_fn_def)

lemma textToSpeechFlow_fn_not_rejected: "textToSpeechFlow_fn E p l \<noteq> Some (Inl e, tr)"
  by (auto simp: textToSpeechFlow_fn_def split: option.splits sum.splits prod.splits)

lemma textToSpeechFlow_try_settles:
  assumes "\<forall>pcm. closing_signal (wav_Writer E \<lparr>channels = 1, sampleRate = 24000, bitDepth = 16\<rparr> pcm) \<noteq> None"
  shows "\<exists>r. textToSpeechFlow_try E p l = Some (r, [GenerateSpeech (voiceName l) p]) \<and>
           (case r of Inl e \<Rightarrow> True | Inr v \<Rightarrow>
              v = None \<or> (\<exists>bs. v = Some (''data:audio/wav;base64,'' @ base64 bs)))"
proof -
  have w: "(\<exists>e. toWav (wav_Writer E) pcm 1 24000 2 = Some (Inl e)) \<or>
           (\<exists>bs. toWav (wav_Writer E) pcm 1 24000 2 = Some (Inr (base64 bs)))" for pcm
    using assms toWav_settles[of "wav_Writer E" 1 24000 2 pcm] by simp
  show ?thesis
  proof (cases "tts_generate E (voiceName l) p")
    case (Inl e)
    then show ?thesis by (simp add: textToSpeechFlow_try_def)
  next
    case (Inr mo)
    show ?thesis
    proof (cases mo)
      case None
      with Inr show ?thesis by (simp add: textToSpeechFlow_try_def)
    next
      case (Some m)
      show ?thesis
      proof (cases "url m = []")
        case True
        with Inr Some show ?thesis by (simp add: textToSpeechFlow_try_def)
      next
        case False
        show ?thesis
        proof (cases "base64_decode E (after_comma (url m))")
          case (Inl e)
          with Inr Some False show ?thesis by (simp add: textToSpeechFlow_try_def)
        next
          case dec: (Inr audioBuffer)
          from w[of audioBuffer] Inr Some False dec show ?thesis
            by (auto simp: textToSpeechFlow_try_def)
        qed
      qed
    qed
  qed
qed

text \<open>The flow's function does what its comments say: with a writer that closes it returns,
  after one call to the speech endpoint, \<open>undefined\<close> or the data URI of the audio.\<close>

lemma textToSpeechFlow_fn_returns:
  assumes "\<forall>pcm. closing_signal (wav_Writer E \<lparr>channels = 1, sampleRate = 24000, bitDepth = 16\<rparr> pcm) \<noteq> None"
  shows "\<exists>v. textToSpeechFlow_fn E p l = Some (Inr v, [GenerateSpeech (voiceName l) p]) \<and>
           (v = None \<or> (\<exists>bs. v = Some (''data:audio/wav;base64,'' @ base64 bs)))"
proof -
  from textToSpeechFlow_try_settles[OF assms, of p l]
  obtain r where r: "textToSpeechFlow_try E p l = Some (r, [GenerateSpeech (voiceName l) p])"
    "case r of Inl e \<Rightarrow> True | Inr v \<Rightarrow>
              v = None \<or> (\<exists>bs. v = Some (''data:audio/wav;base64,'' @ base64 bs))"
    by blast
  then show ?thesis
    by (cases r) (auto simp: textToSpeechFlow_fn_def)
qed

text \<open>The flow around the function: a returned \<open>undefined\<close> fails the output schema, so
  every exception of the \<open>try\<close> block ends as a rejection of the flow.\<close>

lemma textToSpeechFlow_rejects_undefined:
  "textToSpeechFlow_fn E p l = Some (Inr None, tr) \<Longrightarrow>
     textToSpeechFlow E p l = Some (Inl (validation_error E), tr)"
  by (simp add: textToSpeechFlow_def)

lemma textToSpeechFlow_passes_string:
  "textToSpeechFlow_fn E p l = Some (Inr (Some wavUri), tr) \<Longrightarrow>
     textToSpeechFlow E p l = Some (Inr (Some wavUri), tr)"
  by (simp add: textToSpeechFlow_def)

lemma textToSpeechFlow_rejects_on_exception:
  "textToSpeechFlow_try E p l = Some (Inl e, tr) \<Longrightarrow>
     textToSpeechFlow E p l = Some (Inl (validation_error E), tr)"
  by (simp add: textToSpeechFlow_rejects_undefined textToSpeechFlow_fn_catches)

lemma textToSpeechFlow_never_absent: "textToSpeechFlow E p l \<noteq> Some (Inr None, tr)"
  by (auto simp: textToSpeechFlow_def split: option.splits sum.splits prod.splits)

text \<open>
  Claim C3 says that the speech adapter returns a base64 audio string or an absent result
  for every text and language code and never raises to its caller, every exception being
  caught and converted to an absent result. The code does not do so. With a speech endpoint
  that throws, and with one that answers without media, the flow's function returns
  \<open>undefined\<close> as the claim says, but the flow \<open>textToSpeechFlow\<close> that the caller invokes
  rejects with the validation error of its output schema.
\<close>

theorem textToSpeechFlow_raises_on_failure:
  "textToSpeechFlow_fn (scripted_env\<lparr>tts_generate := \<lambda>v p. Inl (Error ''network down'')\<rparr>)
       ''Hello'' ''hi'' =
     Some (Inr None, [GenerateSpeech ''hi-IN-Neural2-A'' ''Hello'']) \<and>
   textToSpeechFlow (scripted_env\<lparr>tts_generate := \<lambda>v p. Inl (Error ''network down'')\<rparr>)
       ''Hello'' ''hi'' =
     Some (Inl (Error ''Schema validation failed. Parse Errors: - (root): must be string''),
           [GenerateSpeech ''hi-IN-Neural2-A'' ''Hello'']) \<and>
   textToSpeechFlow_fn (scripted_env\<lparr>tts_generate := \<lambda>v p. Inr None\<rparr>) ''Hello'' ''hi'' =
     Some (Inr None, [GenerateSpeech ''hi-IN-Neural2-A'' ''Hello'']) \<and>
   textToSpeechFlow (scripted_env\<lparr>tts_generate := \<lambda>v p. Inr None\<rparr>) ''Hello'' ''hi'' =
     Some (Inl (Error ''Schema validation failed. Parse Errors: - (root): must be string''),
           [GenerateSpeech ''hi-IN-Neural2-A'' ''Hello''])"
proof -
  let ?F = "scripted_env\<lparr>tts_generate := \<lambda>v p. Inl (Error ''network down'')\<rparr>"
  let ?G = "scripted_env\<lparr>tts_generate := \<lambda>v p. Inr None\<rparr>"
  let ?tr = "[GenerateSpeech ''hi-IN-Neural2-A'' ''Hello'']"
  have t: "textToSpeechFlow_try ?F ''Hello'' ''hi'' = Some (Inl (Error ''network down''), ?tr)"
    by (simp add: textToSpeechFlow_try_def voiceName_def)
  have u: "textToSpeechFlow_try ?G ''Hello'' ''hi'' = Some (Inr None, ?tr)"
    by (simp add: textToSpeechFlow_try_def voiceName_def)
  have e: "validation_error ?F =
      Error ''Schema validation failed. Parse Errors: - (root): must be string''"
    "validation_error ?G =
      Error ''Schema validation failed. Parse Errors: - (root): must be string''"
    by (simp_all add: scripted_env_def)
  have 1: "textToSpeechFlow_fn ?F ''Hello'' ''hi'' = Some (Inr None, ?tr)"
    using t by (rule textToSpeechFlow_fn_catches)
  have 2: "textToSpeechFlow_fn ?G ''Hello'' ''hi'' = Some (Inr None, ?tr)"
    using u by (simp add: textToSpeechFlow_fn_def)
  from textToSpeechFlow_rejects_undefined[OF 1] e(1)
  have 3: "textToSpeechFlow ?F ''Hello'' ''hi'' =
     Some (Inl (Error ''Schema validation failed. Parse Errors: - (root): must be string''), ?tr)"
    by simp
  from textToSpeechFlow_rejects_undefined[OF 2] e(2)
  have 4: "textToSpeechFlow ?G ''Hello'' ''hi'' =
     Some (Inl (Error ''Schema validation failed. Parse Errors: - (root): must be string''), ?tr)"
    by simp
  from 1 2 3 4 show ?thesis by simp
qed

section \<open>The coordinator\<close>

text \<open>A falsy narration makes the audio task fulfil with \<open>undefined\<close> at once, with no call
  to the outside.\<close>

lemma audioGenPromise_skips:
  "narration input = None \<or> narration input = Some [] \<Longrightarrow>
     audioGenPromise E input = Some (Inr None, [])"
  by (auto simp: audioGenPromise_def)

lemma generateVideoFlow_skipped_audio:
  assumes "audioGenPromise E input = Some (Inr None, [])"
  shows "(\<forall>r vtr atr. generateVideoFlow E input = Some (r, vtr, atr) \<longrightarrow>
            atr = [] \<and> (\<forall>out. r = Inr out \<longrightarrow> audioUrl out = None)) \<and>
         (\<forall>v vtr. videoGenPromise E input = Some (Inr v, vtr) \<longrightarrow>
            generateVideoFlow E input = Some (Inr \<lparr>videoUrl = v, audioUrl = None\<rparr>, vtr, []))"
  using assms
  by (auto simp: generateVideoFlow_def join_tasks_def merge_results_def
      split: option.splits sum.splits prod.splits)

text \<open>
  Claim C4. For every request whose narration is absent, the audio task fulfils at once
  with \<open>undefined\<close> and makes no call to the outside, so the speech endpoint is never
  invoked; whenever the flow settles its audio effects are empty and a successful result
  has no \<open>audioUrl\<close>, and whenever the video task succeeds the flow returns its value
  with \<open>audioUrl\<close> absent.
\<close>

theorem absent_narration_skips_speech:
  assumes "narration input = None"
  shows "audioGenPromise E input = Some (Inr None, []) \<and>
         (\<forall>r vtr atr. generateVideoFlow E input = Some (r, vtr, atr) \<longrightarrow>
            atr = [] \<and> (\<forall>out. r = Inr out \<longrightarrow> audioUrl out = None)) \<and>
         (\<forall>v vtr. videoGenPromise E input = Some (Inr v, vtr) \<longrightarrow>
            generateVideoFlow E input = Some (Inr \<lparr>videoUrl = v, audioUrl = None\<rparr>, vtr, []))"
proof -
  have "audioGenPromise E input = Some (Inr None, [])"
    using assms by (simp add: audioGenPromise_skips)
  with generateVideoFlow_skipped_audio[OF this] show ?thesis by simp
qed

theorem absent_narration_skips_speech_witness:
  "narration sunset_request = None \<and>
   generateVideoFlow scripted_env sunset_request =
     Some (Inr \<lparr>videoUrl = ''data:video/webm;base64,TWFu'', audioUrl = None\<rparr>,
       [GenerateVideo ''a sunset, in the style of a cinematic film'' AR_16_9,
        Sleep 5000, CheckOperation, Sleep 5000, CheckOperation, Sleep 5000, CheckOperation,
        Fetch ''https://video.example/v1?alt=media&key=KEY''],
       [])"
proof -
  have n: "narration sunset_request = None" by (simp add: sunset_request_def)
  have v: "videoGenPromise scripted_env sunset_request =
     Some (Inr ''data:video/webm;base64,TWFu'',
       [GenerateVideo ''a sunset, in the style of a cinematic film'' AR_16_9,
        Sleep 5000, CheckOperation, Sleep 5000, CheckOperation, Sleep 5000, CheckOperation,
        Fetch ''https://video.example/v1?alt=media&key=KEY''])"
    by (simp add: scripted_video) (simp add: sunset_request_def fullPrompt_def)
  from absent_narration_skips_speech[OF n, of scripted_env] v n show ?thesis by simp
qed

text \<open>
  Claim C10. For every request whose narration is present but empty, the audio task
  behaves as for an absent narration: it fulfils at once with \<open>undefined\<close>, without
  invoking the speech endpoint, and the result has no \<open>audioUrl\<close>.
\<close>

theorem empty_narration_skips_speech:
  assumes "narration input = Some []"
  shows "audioGenPromise E input = Some (Inr None, []) \<and>
         (\<forall>r vtr atr. generateVideoFlow E input = Some (r, vtr, atr) \<longrightarrow>
            atr = [] \<and> (\<forall>out. r = Inr out \<longrightarrow> audioUrl out = None)) \<and>
         (\<forall>v vtr. videoGenPromise E input = Some (Inr v, vtr) \<longrightarrow>
            generateVideoFlow E input = Some (Inr \<lparr>videoUrl = v, audioUrl = None\<rparr>, vtr, []))"
proof -
  have "audioGenPromise E input = Some (Inr None, [])"
    using assms by (simp add: audioGenPromise_skips)
  with generateVideoFlow_skipped_audio[OF this] show ?thesis by simp
qed

theorem empty_narration_skips_speech_witness:
  "narration (city_request\<lparr>narration := Some []\<rparr>) = Some [] \<and>
   generateVideoFlow scripted_env (city_request\<lparr>narration := Some []\<rparr>) =
     Some (Inr \<lparr>videoUrl = ''data:video/webm;base64,TWFu'', audioUrl = None\<rparr>,
       [GenerateVideo ''a city, in the style of Anime'' AR_16_9,
        Sleep 5000, CheckOperation, Sleep 5000, CheckOperation, Sleep 5000, CheckOperation,
        Fetch ''https://video.example/v1?alt=media&key=KEY''],
       [])"
proof -
  have n: "narration (city_request\<lparr>narration := Some []\<rparr>) = Some []" by simp
  have v: "videoGenPromise scripted_env (city_request\<lparr>narration := Some []\<rparr>) =
     Some (Inr ''data:video/webm;base64,TWFu'',
       [GenerateVideo ''a city, in the style of Anime'' AR_16_9,
        Sleep 5000, CheckOperation, Sleep 5000, CheckOperation, Sleep 5000, CheckOperation,
        Fetch ''https://video.example/v1?alt=media&key=KEY''])"
    by (simp add: scripted_video) (simp add: city_request_def fullPrompt_def)
  from empty_narration_skips_speech[OF n, of scripted_env] v n show ?thesis by simp
qed

text \<open>A run in which the speech endpoint answers without media: the audio task rejects and
  the flow still returns the video, with no \<open>audioUrl\<close>.\<close>

lemma no_media_run:
  "generateVideoFlow (scripted_env\<lparr>tts_generate := \<lambda>v p. Inr None\<rparr>) city_request =
     Some (Inr \<lparr>videoUrl = ''data:video/webm;base64,TWFu'', audioUrl = None\<rparr>,
       [GenerateVideo ''a city, in the style of Anime'' AR_16_9,
        Sleep 5000, CheckOperation, Sleep 5000, CheckOperation, Sleep 5000, CheckOperation,
        Fetch ''https://video.example/v1?alt=media&key=KEY''],
       [GenerateSpeech ''hi-IN-Neural2-A'' ''Hello''])"
proof -
  let ?G = "scripted_env\<lparr>tts_generate := \<lambda>v p. Inr None\<rparr>"
  have v: "videoGenPromise ?G city_request =
     Some (Inr ''data:video/webm;base64,TWFu'',
       [GenerateVideo ''a city, in the style of Anime'' AR_16_9,
        Sleep 5000, CheckOperation, Sleep 5000, CheckOperation, Sleep 5000, CheckOperation,
        Fetch ''https://video.example/v1?alt=media&key=KEY''])"
    by (simp add: videoGenPromise_def scripted_env_def poll.simps pending_operation_def
        finished_operation_def after_poll_def find_video_def download_video_def
        base64_char_def base64_alphabet_def city_request_def fullPrompt_def)
  have a: "audioGenPromise ?G city_request =
     Some (Inl (validation_error scripted_env), [GenerateSpeech ''hi-IN-Neural2-A'' ''Hello''])"
    by (simp add: audioGenPromise_def city_request_def textToSpeechFlow_def
        textToSpeechFlow_fn_def textToSpeechFlow_try_def voiceName_def)
  from v a show ?thesis
    by (simp add: generateVideoFlow_def join_tasks_def merge_results_def)
qed

text \<open>
  Claim C2. The flow is the join of its two tasks, and when the audio task has settled as
  a failure and the video task as a success with value \<open>v\<close>, the join returns a success
  whose \<open>videoUrl\<close> is \<open>v\<close> and whose \<open>audioUrl\<close> is absent: the audio failure is not
  surfaced as a rejection.
\<close>

theorem audio_failure_is_not_fatal:
  "generateVideoFlow E input = join_tasks (videoGenPromise E input) (audioGenPromise E input) \<and>
   join_tasks (Some (Inr v, vtr)) (Some (Inl e, atr)) =
     Some (Inr \<lparr>videoUrl = v, audioUrl = None\<rparr>, vtr, atr) \<and>
   merge_results (Inr v) (Inl e) = Inr \<lparr>videoUrl = v, audioUrl = None\<rparr>"
  by (simp add: generateVideoFlow_def merge_results_def join_tasks_def)

end
